theory Spec2Isabelle
  imports Main
begin

section \<open>Data model of the KYC wall (src/components/KYCWall/BaseKYCWall.js)\<close>

text \<open>
  Pixel coordinates are JavaScript numbers; they are modelled as integers, on which the
  arithmetic of \<open>getAnchorPosition\<close> is exact. A DOM element is an opaque handle.
  A JavaScript object used as a dictionary (\<open>fundList\<close>, \<open>bankAccountList\<close>) is an
  association list of its entries, so that \<open>{}\<close> is \<open>[]\<close>; a value that may be
  \<open>null\<close> or \<open>undefined\<close> is an \<open>option\<close>, with \<open>None\<close> for the absent value.
\<close>

type_synonym element = nat

type_synonym 'i jsobj = "(string \<times> 'i) list"

record domRect =
  top' :: int
  left :: int
  width :: int
  height :: int

record anchor =
  anchorPositionVertical :: int
  anchorPositionHorizontal :: int

record nativeEvent_obj =
  target :: element

record event =
  nativeEvent :: nativeEvent_obj

record wallet_obj =
  tierName :: "string option"

record ach_obj =
  state :: "string option"

record reimbursement_obj =
  achData :: "ach_obj option"

text \<open>
  The constants of \<open>CONST\<close> that the component reads. The file that defines them is not
  part of the sources, so they are parameters of the model.
\<close>

record const_obj =
  MODAL_POPOVER_MENU_PADDING :: int
  BANK_ACCOUNT_STATE_OPEN :: string
  WALLET_TIER_NAME_GOLD :: string
  PAYMENT_METHODS_BANK_ACCOUNT :: string
  PAYMENT_METHODS_DEBIT_CARD :: string

text \<open>
  The two library predicates the component calls, \<open>ReportUtils.isExpenseReport\<close> and
  \<open>PaymentUtils.hasExpensifyPaymentMethod\<close>, are parameters as well.
\<close>

record ('i, 'rep) libs =
  isExpenseReport :: "'rep \<Rightarrow> bool"
  hasExpensifyPaymentMethod :: "'i jsobj \<Rightarrow> 'i jsobj option \<Rightarrow> bool"

text \<open>The props of the component (\<open>onSuccessfulKYC\<close> and \<open>children\<close> are callbacks).\<close>

record ('i, 'rep) props =
  shouldListenForResize :: bool
  chatReportID :: string
  popoverPlacement :: string
  iouReport :: 'rep
  fundList :: "'i jsobj option"
  reimbursementAccount :: "reimbursement_obj option"
  bankAccountList :: "'i jsobj option"
  userWallet :: "wallet_obj option"
  enablePaymentsRoute :: string
  addBankAccountRoute :: string
  addDebitCardRoute :: string

text \<open>
  The state of one mounted component: the two \<open>useState\<close> cells and the ref
  \<open>transferBalanceButtonRef\<close>.
\<close>

record kycWall =
  shouldShowAddPaymentMenu :: bool
  anchorPosition :: anchor
  transferBalanceButtonRef :: "element option"

definition initialKYCWall :: kycWall where
  "initialKYCWall =
     \<lparr>shouldShowAddPaymentMenu = False,
      anchorPosition = \<lparr>anchorPositionVertical = 0, anchorPositionHorizontal = 0\<rparr>,
      transferBalanceButtonRef = None\<rparr>"

text \<open>
  The value stored in \<open>PaymentMethods.kycWallRef.current\<close>, and the process-wide state
  the lifecycle effect writes to.
\<close>

datatype wallRef = Null | Undefined | Instance nat

record globals =
  kycWallRef :: wallRef
  kycWallSourceChatReportID :: "string option"
  dimensionsChangeListeners :: nat

datatype js_error = TypeError

text \<open>
  Every statement of a handler that writes state or calls out of the component is a
  \<open>call\<close>; a handler is modelled by the list of the calls it makes, in program order.
\<close>

datatype call =
    SetShouldShowAddPaymentMenu bool
  | SetAnchorPosition anchor
  | SetTransferBalanceButtonRef element
  | LogInfo string
  | Navigate string
  | OnSuccessfulKYC string
  | SetKycWallRef wallRef
  | DimensionsAddEventListener
  | SubscriptionRemove
  | SetKYCWallSourceChatReportID string

section \<open>The anchor position\<close>

definition POPOVER_MENU_ANCHOR_POSITION_VERTICAL_OFFSET :: int where
  "POPOVER_MENU_ANCHOR_POSITION_VERTICAL_OFFSET = 2"

definition POPOVER_MENU_ANCHOR_POSITION_HORIZONTAL_OFFSET :: int where
  "POPOVER_MENU_ANCHOR_POSITION_HORIZONTAL_OFFSET = 20"

definition getAnchorPosition :: "const_obj \<Rightarrow> string \<Rightarrow> domRect \<Rightarrow> anchor" where
  "getAnchorPosition C placement domRect =
     (if placement = ''bottom'' then
        \<lparr>anchorPositionVertical =
           top' domRect + (height domRect - POPOVER_MENU_ANCHOR_POSITION_VERTICAL_OFFSET),
         anchorPositionHorizontal =
           left domRect + POPOVER_MENU_ANCHOR_POSITION_HORIZONTAL_OFFSET\<rparr>
      else
        \<lparr>anchorPositionVertical = top' domRect - MODAL_POPOVER_MENU_PADDING C,
         anchorPositionHorizontal = left domRect\<rparr>)"

definition setPositionAddPaymentMenu :: "anchor \<Rightarrow> call list" where
  "setPositionAddPaymentMenu position =
     [SetAnchorPosition
        \<lparr>anchorPositionVertical = anchorPositionVertical position,
         anchorPositionHorizontal = anchorPositionHorizontal position\<rparr>]"

text \<open>
  \<open>getClickedTargetLocation\<close> reads the geometry an element has at the moment of the
  call; it is the argument \<open>geom\<close>.
\<close>

definition setMenuPosition ::
  "const_obj \<Rightarrow> ('i, 'rep) props \<Rightarrow> (element \<Rightarrow> domRect) \<Rightarrow> kycWall \<Rightarrow> call list" where
  "setMenuPosition C P geom w =
     (case transferBalanceButtonRef w of
        None \<Rightarrow> []
      | Some el \<Rightarrow>
          (let buttonPosition = geom el;
               position = getAnchorPosition C (popoverPlacement P) buttonPosition
           in setPositionAddPaymentMenu position))"

section \<open>The handlers\<close>

text \<open>
  JavaScript truthiness of a value that is a string or absent: \<open>null\<close>, \<open>undefined\<close>
  and the empty string are falsy.
\<close>

definition truthy :: "string option \<Rightarrow> bool" where
  "truthy v = (case v of None \<Rightarrow> False | Some s \<Rightarrow> s \<noteq> '''')"

text \<open>\<open>lodashGet(reimbursementAccount, 'achData.state', dflt)\<close>: never throws.\<close>

definition lodashGet_achData_state :: "reimbursement_obj option \<Rightarrow> string \<Rightarrow> string" where
  "lodashGet_achData_state ra dflt =
     (case ra of
        None \<Rightarrow> dflt
      | Some r \<Rightarrow>
          (case achData r of
             None \<Rightarrow> dflt
           | Some a \<Rightarrow> (case state a of None \<Rightarrow> dflt | Some s \<Rightarrow> s)))"

text \<open>
  \<open>continueAction\<close> returns the calls it made and, when it threw, the error: reading
  \<open>userWallet.tierName\<close> throws a TypeError when \<open>userWallet\<close> is absent.
\<close>

definition continueAction ::
  "const_obj \<Rightarrow> ('i, 'rep) libs \<Rightarrow> ('i, 'rep) props \<Rightarrow> (element \<Rightarrow> domRect) \<Rightarrow> kycWall \<Rightarrow>
   event \<Rightarrow> string \<Rightarrow> call list \<times> js_error option" where
  "continueAction C L P geom w ev iouPaymentType =
     (if shouldShowAddPaymentMenu w then ([SetShouldShowAddPaymentMenu False], None)
      else
        (let setRef = [SetTransferBalanceButtonRef (target (nativeEvent ev))];
             isExpenseReport' = isExpenseReport L (iouReport P);
             paymentCardList = (case fundList P of None \<Rightarrow> [] | Some fl \<Rightarrow> fl)
         in
           if (isExpenseReport' \<and>
               lodashGet_achData_state (reimbursementAccount P) '''' \<noteq> BANK_ACCOUNT_STATE_OPEN C)
              \<or> (\<not> isExpenseReport' \<and>
                  \<not> hasExpensifyPaymentMethod L paymentCardList (bankAccountList P))
           then
             (let clickedElementLocation = geom (target (nativeEvent ev));
                  position = getAnchorPosition C (popoverPlacement P) clickedElementLocation
              in (setRef
                  @ [LogInfo ''[KYC Wallet] User does not have valid payment method'']
                  @ setPositionAddPaymentMenu position
                  @ [SetShouldShowAddPaymentMenu True], None))
           else if \<not> isExpenseReport' then
             (case userWallet P of
                None \<Rightarrow> (setRef, Some TypeError)
              | Some uw \<Rightarrow>
                  (let hasGoldWallet =
                         (truthy (tierName uw) \<and> tierName uw = Some (WALLET_TIER_NAME_GOLD C))
                   in
                     if \<not> hasGoldWallet then
                       (setRef
                        @ [LogInfo ''[KYC Wallet] User does not have gold wallet'',
                           Navigate (enablePaymentsRoute P)], None)
                     else
                       (setRef
                        @ [LogInfo ''[KYC Wallet] User has valid payment method and passed KYC checks or did not need them'',
                           OnSuccessfulKYC iouPaymentType], None)))
           else
             (setRef
              @ [LogInfo ''[KYC Wallet] User has valid payment method and passed KYC checks or did not need them'',
                 OnSuccessfulKYC iouPaymentType], None)))"

definition handleItemSelected :: "const_obj \<Rightarrow> ('i, 'rep) props \<Rightarrow> string \<Rightarrow> call list" where
  "handleItemSelected C P item =
     [SetShouldShowAddPaymentMenu False]
     @ (if item = PAYMENT_METHODS_BANK_ACCOUNT C then [Navigate (addBankAccountRoute P)]
        else if item = PAYMENT_METHODS_DEBIT_CARD C then [Navigate (addDebitCardRoute P)]
        else [])"

text \<open>The \<open>onClose\<close> handler given to the menu.\<close>

definition onClose :: "call list" where
  "onClose = [SetShouldShowAddPaymentMenu False]"

section \<open>The lifecycle effect\<close>

text \<open>
  The body of \<open>useEffect\<close> returns its calls and the value of \<open>dimensionsSubscription\<close>
  that its cleanup closes over; \<open>this\<close> is whatever \<open>this\<close> evaluates to in the
  component function.
\<close>

definition kycWallEffect :: "wallRef \<Rightarrow> ('i, 'rep) props \<Rightarrow> call list \<times> unit option" where
  "kycWallEffect this P =
     ([SetKycWallRef this]
      @ (if shouldListenForResize P then [DimensionsAddEventListener] else [])
      @ [SetKYCWallSourceChatReportID (chatReportID P)],
      if shouldListenForResize P then Some () else None)"

definition kycWallEffectCleanup :: "('i, 'rep) props \<Rightarrow> unit option \<Rightarrow> call list" where
  "kycWallEffectCleanup P dimensionsSubscription =
     (if shouldListenForResize P \<and> dimensionsSubscription \<noteq> None then [SubscriptionRemove]
      else [])
     @ [SetKycWallRef Null]"

section \<open>What the calls do\<close>

fun perform :: "call \<Rightarrow> kycWall \<Rightarrow> kycWall" where
  "perform (SetShouldShowAddPaymentMenu b) w = w\<lparr>shouldShowAddPaymentMenu := b\<rparr>"
| "perform (SetAnchorPosition a) w = w\<lparr>anchorPosition := a\<rparr>"
| "perform (SetTransferBalanceButtonRef el) w = w\<lparr>transferBalanceButtonRef := Some el\<rparr>"
| "perform _ w = w"

definition performs :: "call list \<Rightarrow> kycWall \<Rightarrow> kycWall" where
  "performs cs w = fold perform cs w"

text \<open>
  Modelled from the spec: \<open>Wallet.setKYCWallSourceChatReportID\<close> is not among the
  sources; the spec says that it publishes the chat/report identifier of the wall to
  process-wide shared state.
\<close>

definition setKYCWallSourceChatReportID :: "string \<Rightarrow> globals \<Rightarrow> globals" where
  "setKYCWallSourceChatReportID cid g = g\<lparr>kycWallSourceChatReportID := Some cid\<rparr>"

fun performGlobal :: "call \<Rightarrow> globals \<Rightarrow> globals" where
  "performGlobal (SetKycWallRef r) g = g\<lparr>kycWallRef := r\<rparr>"
| "performGlobal DimensionsAddEventListener g =
     g\<lparr>dimensionsChangeListeners := dimensionsChangeListeners g + 1\<rparr>"
| "performGlobal SubscriptionRemove g =
     g\<lparr>dimensionsChangeListeners := dimensionsChangeListeners g - 1\<rparr>"
| "performGlobal (SetKYCWallSourceChatReportID cid) g = setKYCWallSourceChatReportID cid g"
| "performGlobal _ g = g"

definition performsGlobal :: "call list \<Rightarrow> globals \<Rightarrow> globals" where
  "performsGlobal cs g = fold performGlobal cs g"

text \<open>Mounting runs the effect; unmounting runs the cleanup the effect returned.\<close>

definition mount :: "wallRef \<Rightarrow> ('i, 'rep) props \<Rightarrow> globals \<Rightarrow> globals \<times> unit option" where
  "mount this P g = (performsGlobal (fst (kycWallEffect this P)) g, snd (kycWallEffect this P))"

definition unmount :: "('i, 'rep) props \<Rightarrow> unit option \<Rightarrow> globals \<Rightarrow> globals" where
  "unmount P dimensionsSubscription g =
     performsGlobal (kycWallEffectCleanup P dimensionsSubscription) g"

section \<open>The component as a machine\<close>

text \<open>
  The inputs a mounted wall receives: a press of the gated control, a selection in the
  menu, the menu's close request, and a change of the window dimensions, after which
  the elements have the geometry it carries. The \<open>change\<close> listener is registered only
  when \<open>shouldListenForResize\<close> is set. The calls a handler made before it threw are
  performed.
\<close>

datatype input =
    Trigger event string
  | ItemSelected string
  | Close
  | Resize "element \<Rightarrow> domRect"

fun step ::
  "const_obj \<Rightarrow> ('i, 'rep) libs \<Rightarrow> ('i, 'rep) props \<Rightarrow> input \<Rightarrow>
   kycWall \<times> (element \<Rightarrow> domRect) \<Rightarrow> kycWall \<times> (element \<Rightarrow> domRect)" where
  "step C L P (Trigger ev iouPaymentType) (w, geom) =
     (performs (fst (continueAction C L P geom w ev iouPaymentType)) w, geom)"
| "step C L P (ItemSelected item) (w, geom) = (performs (handleItemSelected C P item) w, geom)"
| "step C L P Close (w, geom) = (performs onClose w, geom)"
| "step C L P (Resize geom') (w, geom) =
     (if shouldListenForResize P then performs (setMenuPosition C P geom' w) w else w, geom')"

text \<open>A run: each input arrives under the props of the render it happens in.\<close>

fun run ::
  "const_obj \<Rightarrow> ('i, 'rep) libs \<Rightarrow> (('i, 'rep) props \<times> input) list \<Rightarrow>
   kycWall \<times> (element \<Rightarrow> domRect) \<Rightarrow> kycWall \<times> (element \<Rightarrow> domRect)" where
  "run C L [] s = s"
| "run C L ((P, i) # rest) s = run C L rest (step C L P i s)"

text \<open>
  The anchor on display is current: when the menu is visible, \<open>anchorPosition\<close> is the
  anchor of the last pressed element at the geometry the elements have now.
\<close>

definition anchored ::
  "const_obj \<Rightarrow> string \<Rightarrow> kycWall \<times> (element \<Rightarrow> domRect) \<Rightarrow> bool" where
  "anchored C placement s =
     (case s of (w, geom) \<Rightarrow>
        \<not> shouldShowAddPaymentMenu w \<or>
        (case transferBalanceButtonRef w of
           None \<Rightarrow> False
         | Some el \<Rightarrow> anchorPosition w = getAnchorPosition C placement (geom el)))"

text \<open>
  Modelled from the spec: \<open>PaymentUtils.hasExpensifyPaymentMethod\<close> is not among the
  sources; the spec says that the user is blocked unless the union of the fund list and
  the bank account list contains at least one usable instrument, and that an absent list
  has no valid instrument. Which instruments are usable is the parameter \<open>usable\<close>.
\<close>

definition hasExpensifyPaymentMethod_spec ::
  "('i \<Rightarrow> bool) \<Rightarrow> 'i jsobj \<Rightarrow> 'i jsobj option \<Rightarrow> bool" where
  "hasExpensifyPaymentMethod_spec usable fl bl =
     list_ex usable (map snd (fl @ (case bl of None \<Rightarrow> [] | Some l \<Rightarrow> l)))"

section \<open>Concrete values for the examples\<close>

definition exampleCONST :: const_obj where
  "exampleCONST =
     \<lparr>MODAL_POPOVER_MENU_PADDING = 8,
      BANK_ACCOUNT_STATE_OPEN = ''OPEN'',
      WALLET_TIER_NAME_GOLD = ''GOLD'',
      PAYMENT_METHODS_BANK_ACCOUNT = ''bankAccount'',
      PAYMENT_METHODS_DEBIT_CARD = ''debitCard''\<rparr>"

text \<open>In the examples a report is its "is an expense report" flag and every instrument is usable.\<close>

definition exampleLibs :: "(nat, bool) libs" where
  "exampleLibs =
     \<lparr>isExpenseReport = (\<lambda>r. r),
      hasExpensifyPaymentMethod = hasExpensifyPaymentMethod_spec (\<lambda>_. True)\<rparr>"

definition exampleProps :: "(nat, bool) props" where
  "exampleProps =
     \<lparr>shouldListenForResize = False,
      chatReportID = ''42'',
      popoverPlacement = ''bottom'',
      iouReport = False,
      fundList = Some [(''7'', 1)],
      reimbursementAccount = None,
      bankAccountList = Some [],
      userWallet = Some \<lparr>tierName = Some ''SILVER''\<rparr>,
      enablePaymentsRoute = ''enable-payments'',
      addBankAccountRoute = ''add-bank-account'',
      addDebitCardRoute = ''add-debit-card''\<rparr>"

definition exampleGeom :: "element \<Rightarrow> domRect" where
  "exampleGeom el = \<lparr>top' = 100, left = 50, width = 80, height = 20\<rparr>"

definition exampleEvent :: event where
  "exampleEvent = \<lparr>nativeEvent = \<lparr>target = 3\<rparr>\<rparr>"

definition initialGlobals :: globals where
  "initialGlobals =
     \<lparr>kycWallRef = Null, kycWallSourceChatReportID = None, dimensionsChangeListeners = 0\<rparr>"

definition exampleGeomResized :: "element \<Rightarrow> domRect" where
  "exampleGeomResized el = \<lparr>top' = 200, left = 10, width = 80, height = 20\<rparr>"

text \<open>
  What a run needs for the anchor to stay current: the placement does not change, and
  every change of the window dimensions happens while the wall listens for it.
\<close>

fun resizeHeard :: "string \<Rightarrow> ('i, 'rep) props \<times> input \<Rightarrow> bool" where
  "resizeHeard placement (P, Resize geom') =
     (popoverPlacement P = placement \<and> shouldListenForResize P)"
| "resizeHeard placement (P, i) = (popoverPlacement P = placement)"

text \<open>A wall that listens for resize and whose user has no payment method on file.\<close>

definition exampleListeningProps :: "(nat, bool) props" where
  "exampleListeningProps = exampleProps\<lparr>fundList := None, shouldListenForResize := True\<rparr>"

definition examplePressedWall :: kycWall where
  "examplePressedWall = initialKYCWall\<lparr>transferBalanceButtonRef := Some 3\<rparr>"

text \<open>The three log lines of \<open>continueAction\<close>.\<close>

abbreviation msgNoPaymentMethod :: string where
  "msgNoPaymentMethod \<equiv> ''[KYC Wallet] User does not have valid payment method''"


abbreviation msgPassed :: string where
  "msgPassed \<equiv> ''[KYC Wallet] User has valid payment method and passed KYC checks or did not need them''"

section \<open>The branches of \<open>continueAction\<close>\<close>

lemma continueAction_menu_open:
  "shouldShowAddPaymentMenu w \<Longrightarrow>
   continueAction C L P geom w ev pt = ([SetShouldShowAddPaymentMenu False], None)"
  by (simp add: continueAction_def)

lemma continueAction_blocked:
  assumes "\<not> shouldShowAddPaymentMenu w"
    and "(isExpenseReport L (iouReport P) \<and>
          lodashGet_achData_state (reimbursementAccount P) '''' \<noteq> BANK_ACCOUNT_STATE_OPEN C)
         \<or> (\<not> isExpenseReport L (iouReport P) \<and>
             \<not> hasExpensifyPaymentMethod L (case fundList P of None \<Rightarrow> [] | Some fl \<Rightarrow> fl)
                  (bankAccountList P))"
  shows "continueAction C L P geom w ev pt =
     ([SetTransferBalanceButtonRef (target (nativeEvent ev)),
       LogInfo msgNoPaymentMethod,
       SetAnchorPosition (getAnchorPosition C (popoverPlacement P) (geom (target (nativeEvent ev)))),
       SetShouldShowAddPaymentMenu True], None)"
  using assms
  by (auto simp add: continueAction_def Let_def setPositionAddPaymentMenu_def)


lemma continueAction_gold:
  assumes "\<not> shouldShowAddPaymentMenu w"
    and "\<not> isExpenseReport L (iouReport P)"
    and "hasExpensifyPaymentMethod L (case fundList P of None \<Rightarrow> [] | Some fl \<Rightarrow> fl)
           (bankAccountList P)"
    and "userWallet P = Some uw"
    and "truthy (tierName uw)" and "tierName uw = Some (WALLET_TIER_NAME_GOLD C)"
  shows "continueAction C L P geom w ev pt =
     ([SetTransferBalanceButtonRef (target (nativeEvent ev)),
       LogInfo msgPassed,
       OnSuccessfulKYC pt], None)"
  using assms by (auto simp add: continueAction_def Let_def)

lemma performs_simps:
  "performs [] w = w"
  "performs (c # cs) w = performs cs (perform c w)"
  by (simp_all add: performs_def)

section \<open>An expense report whose reimbursement account is not open\<close>

text \<open>
  C1, as stated: a trigger in the idle state for an expense report whose reimbursement
  account is not \<open>OPEN\<close> is a hard stop with logging only, and the menu stays hidden.
  The code takes the same branch as for a missing payment method and opens the menu:
  here for an expense report with no reimbursement account at all.
\<close>

theorem expense_blocked_counterexample:
  "isExpenseReport exampleLibs (iouReport (exampleProps\<lparr>iouReport := True\<rparr>))
   \<and> lodashGet_achData_state (reimbursementAccount (exampleProps\<lparr>iouReport := True\<rparr>)) ''''
       \<noteq> BANK_ACCOUNT_STATE_OPEN exampleCONST
   \<and> \<not> shouldShowAddPaymentMenu initialKYCWall
   \<and> shouldShowAddPaymentMenu
       (performs
          (fst (continueAction exampleCONST exampleLibs (exampleProps\<lparr>iouReport := True\<rparr>)
                  exampleGeom initialKYCWall exampleEvent ''pay''))
          initialKYCWall)"
  by (simp add: continueAction_def Let_def exampleLibs_def exampleProps_def exampleCONST_def
      initialKYCWall_def lodashGet_achData_state_def setPositionAddPaymentMenu_def
      performs_simps)

text \<open>
  C1, amended: a trigger in the idle state for an expense report whose reimbursement
  account is not \<open>OPEN\<close> records the pressed element, logs, anchors the menu at the
  element and opens it; it requests no navigation, does not invoke the continuation and
  does not throw, whatever \<open>fundList\<close> and \<open>bankAccountList\<close> hold.
\<close>

theorem expense_blocked_opens_menu:
  assumes "\<not> shouldShowAddPaymentMenu w"
    and "isExpenseReport L (iouReport P)"
    and "lodashGet_achData_state (reimbursementAccount P) '''' \<noteq> BANK_ACCOUNT_STATE_OPEN C"
  shows "continueAction C L (P\<lparr>fundList := F, bankAccountList := B\<rparr>) geom w ev pt =
       ([SetTransferBalanceButtonRef (target (nativeEvent ev)),
         LogInfo msgNoPaymentMethod,
         SetAnchorPosition
           (getAnchorPosition C (popoverPlacement P) (geom (target (nativeEvent ev)))),
         SetShouldShowAddPaymentMenu True], None)
     \<and> performs (fst (continueAction C L (P\<lparr>fundList := F, bankAccountList := B\<rparr>) geom w ev pt)) w =
       w\<lparr>shouldShowAddPaymentMenu := True,
         anchorPosition :=
           getAnchorPosition C (popoverPlacement P) (geom (target (nativeEvent ev))),
         transferBalanceButtonRef := Some (target (nativeEvent ev))\<rparr>"
proof -
  let ?P = "P\<lparr>fundList := F, bankAccountList := B\<rparr>"
  have "isExpenseReport L (iouReport ?P)"
    and "lodashGet_achData_state (reimbursementAccount ?P) '''' \<noteq> BANK_ACCOUNT_STATE_OPEN C"
    using assms by simp_all
  with assms(1) have "continueAction C L ?P geom w ev pt =
       ([SetTransferBalanceButtonRef (target (nativeEvent ev)),
         LogInfo msgNoPaymentMethod,
         SetAnchorPosition
           (getAnchorPosition C (popoverPlacement ?P) (geom (target (nativeEvent ev)))),
         SetShouldShowAddPaymentMenu True], None)"
    by (intro continueAction_blocked) simp_all
  then show ?thesis by (simp add: performs_simps)
qed

theorem expense_blocked_opens_menu_witness:
  "\<not> shouldShowAddPaymentMenu initialKYCWall
   \<and> isExpenseReport exampleLibs (iouReport (exampleProps\<lparr>iouReport := True\<rparr>))
   \<and> lodashGet_achData_state (reimbursementAccount (exampleProps\<lparr>iouReport := True\<rparr>)) ''''
       \<noteq> BANK_ACCOUNT_STATE_OPEN exampleCONST
   \<and> continueAction exampleCONST exampleLibs
        (exampleProps\<lparr>iouReport := True, fundList := None, bankAccountList := None\<rparr>)
        exampleGeom initialKYCWall exampleEvent ''pay'' =
       ([SetTransferBalanceButtonRef 3,
         LogInfo msgNoPaymentMethod,
         SetAnchorPosition \<lparr>anchorPositionVertical = 118, anchorPositionHorizontal = 70\<rparr>,
         SetShouldShowAddPaymentMenu True], None)"
  using expense_blocked_opens_menu [of initialKYCWall exampleLibs
      "exampleProps\<lparr>iouReport := True\<rparr>" exampleCONST None None exampleGeom exampleEvent "''pay''"]
  by (simp add: exampleLibs_def exampleProps_def exampleCONST_def initialKYCWall_def
      lodashGet_achData_state_def exampleGeom_def exampleEvent_def getAnchorPosition_def
      POPOVER_MENU_ANCHOR_POSITION_VERTICAL_OFFSET_def
      POPOVER_MENU_ANCHOR_POSITION_HORIZONTAL_OFFSET_def)

section \<open>The cleanup of the lifecycle effect\<close>

text \<open>
  C2, as stated: the cleanup clears both registrations of the effect, the active wall
  reference and the published source chat report identifier. The cleanup only resets
  the reference: after mounting and unmounting a wall for chat report 42 the identifier
  is still published.
\<close>

theorem cleanup_counterexample:
  "kycWallSourceChatReportID initialGlobals = None
   \<and> kycWallSourceChatReportID
       (unmount exampleProps (snd (mount Undefined exampleProps initialGlobals))
          (fst (mount Undefined exampleProps initialGlobals))) = Some ''42''"
  by (simp add: mount_def unmount_def kycWallEffect_def kycWallEffectCleanup_def
      performsGlobal_def setKYCWallSourceChatReportID_def initialGlobals_def exampleProps_def)

text \<open>
  C2, amended: the cleanup removes the resize listener when the effect registered one
  and sets the active wall reference to \<open>null\<close>; it leaves the published source chat
  report identifier as it is, so that after mounting and unmounting the identifier of
  the wall is still published.
\<close>

theorem cleanup_resets_reference_only:
  "kycWallEffectCleanup P sub =
     (if shouldListenForResize P \<and> sub \<noteq> None then [SubscriptionRemove] else [])
     @ [SetKycWallRef Null]
   \<and> kycWallRef (unmount P sub g) = Null
   \<and> kycWallSourceChatReportID (unmount P sub g) = kycWallSourceChatReportID g
   \<and> kycWallRef (unmount P (snd (mount this P g)) (fst (mount this P g))) = Null
   \<and> kycWallSourceChatReportID (unmount P (snd (mount this P g)) (fst (mount this P g))) =
       Some (chatReportID P)
   \<and> dimensionsChangeListeners (unmount P (snd (mount this P g)) (fst (mount this P g))) =
       dimensionsChangeListeners g"
  by (simp add: mount_def unmount_def kycWallEffect_def kycWallEffectCleanup_def
      performsGlobal_def setKYCWallSourceChatReportID_def)

theorem cleanup_resets_reference_only_witness:
  "unmount (exampleProps\<lparr>shouldListenForResize := True\<rparr>)
     (snd (mount (Instance 1) (exampleProps\<lparr>shouldListenForResize := True\<rparr>) initialGlobals))
     (fst (mount (Instance 1) (exampleProps\<lparr>shouldListenForResize := True\<rparr>) initialGlobals)) =
   \<lparr>kycWallRef = Null, kycWallSourceChatReportID = Some ''42'', dimensionsChangeListeners = 0\<rparr>"
  using cleanup_resets_reference_only [where P = "exampleProps\<lparr>shouldListenForResize := True\<rparr>"
      and sub = "snd (mount (Instance 1) (exampleProps\<lparr>shouldListenForResize := True\<rparr>) initialGlobals)"
      and g = "fst (mount (Instance 1) (exampleProps\<lparr>shouldListenForResize := True\<rparr>) initialGlobals)"
      and this = "Instance 1"]
  by (simp add: mount_def unmount_def kycWallEffect_def kycWallEffectCleanup_def
      performsGlobal_def setKYCWallSourceChatReportID_def initialGlobals_def exampleProps_def)

section \<open>The anchor while the menu is open\<close>

lemma step_anchored:
  assumes "resizeHeard placement (P, i)" and "anchored C placement s"
  shows "anchored C placement (step C L P i s)"
proof (cases s)
  case (Pair w geom)
  show ?thesis
  proof (cases i)
    case (Trigger ev pt)
    with assms Pair show ?thesis
      by (auto simp add: anchored_def continueAction_def Let_def performs_simps
          setPositionAddPaymentMenu_def split: option.splits)
  next
    case (ItemSelected item)
    with Pair show ?thesis
      by (simp add: anchored_def handleItemSelected_def performs_simps)
  next
    case Close
    with Pair show ?thesis
      by (simp add: anchored_def onClose_def performs_simps)
  next
    case (Resize geom')
    with assms Pair show ?thesis
      by (auto simp add: anchored_def setMenuPosition_def Let_def performs_simps
          setPositionAddPaymentMenu_def split: option.splits)
  qed
qed

lemma run_anchored:
  "list_all (resizeHeard placement) evs \<Longrightarrow> anchored C placement s \<Longrightarrow>
   anchored C placement (run C L evs s)"
proof (induction evs arbitrary: s)
  case Nil
  then show ?case by simp
next
  case (Cons e evs)
  obtain P i where e: "e = (P, i)" by (cases e)
  from Cons.prems have "resizeHeard placement (P, i)" and rest: "list_all (resizeHeard placement) evs"
    by (simp_all add: e)
  with Cons.prems(2) have "anchored C placement (step C L P i s)"
    by (intro step_anchored)
  with rest have "anchored C placement (run C L evs (step C L P i s))"
    by (rule Cons.IH)
  then show ?case by (simp add: e)
qed

text \<open>
  C3, as stated: the anchor of a visible menu is never stale, because a resize while
  the menu is open re-anchors it. The listener that re-anchors is registered only when
  \<open>shouldListenForResize\<close> is set: without it, after the menu opens at geometry
  \<open>exampleGeom\<close> and the window changes to \<open>exampleGeomResized\<close>, the menu is still
  shown at the anchor of the old geometry.
\<close>

theorem resize_not_heard_counterexample:
  "\<not> shouldListenForResize (exampleProps\<lparr>fundList := None\<rparr>)
   \<and> shouldShowAddPaymentMenu
       (fst (run exampleCONST exampleLibs
          [(exampleProps\<lparr>fundList := None\<rparr>, Trigger exampleEvent ''pay''),
           (exampleProps\<lparr>fundList := None\<rparr>, Resize exampleGeomResized)]
          (initialKYCWall, exampleGeom)))
   \<and> anchorPosition
       (fst (run exampleCONST exampleLibs
          [(exampleProps\<lparr>fundList := None\<rparr>, Trigger exampleEvent ''pay''),
           (exampleProps\<lparr>fundList := None\<rparr>, Resize exampleGeomResized)]
          (initialKYCWall, exampleGeom)))
       = \<lparr>anchorPositionVertical = 118, anchorPositionHorizontal = 70\<rparr>
   \<and> getAnchorPosition exampleCONST ''bottom'' (exampleGeomResized (target (nativeEvent exampleEvent)))
       = \<lparr>anchorPositionVertical = 218, anchorPositionHorizontal = 30\<rparr>
   \<and> \<not> anchored exampleCONST ''bottom''
       (run exampleCONST exampleLibs
          [(exampleProps\<lparr>fundList := None\<rparr>, Trigger exampleEvent ''pay''),
           (exampleProps\<lparr>fundList := None\<rparr>, Resize exampleGeomResized)]
          (initialKYCWall, exampleGeom))"
  by (simp add: anchored_def continueAction_def Let_def performs_simps
      setPositionAddPaymentMenu_def getAnchorPosition_def exampleLibs_def exampleProps_def
      exampleCONST_def exampleGeom_def exampleGeomResized_def exampleEvent_def
      initialKYCWall_def hasExpensifyPaymentMethod_spec_def
      POPOVER_MENU_ANCHOR_POSITION_VERTICAL_OFFSET_def
      POPOVER_MENU_ANCHOR_POSITION_HORIZONTAL_OFFSET_def)

text \<open>
  C3, amended: for a wall whose placement does not change and that listens for every
  resize that happens (\<open>shouldListenForResize\<close>), whenever the menu is visible
  \<open>anchorPosition\<close> is the anchor of the last pressed element at the current geometry.
  A trigger that opens the menu anchors it at the geometry the pressed element has at
  that moment. A resize never changes the visibility of the menu; when the wall listens
  and an element has been pressed it sets \<open>anchorPosition\<close> from the element's new
  geometry, and otherwise it changes nothing.
\<close>

theorem anchor_current_when_resize_heard:
  "(resizeHeard placement (P', i) \<and> anchored C placement s \<longrightarrow>
      anchored C placement (step C L P' i s))
   \<and> (list_all (resizeHeard placement) evs \<longrightarrow>
      anchored C placement (run C L evs (initialKYCWall, geom0)))
   \<and> (\<not> shouldShowAddPaymentMenu w \<and>
       shouldShowAddPaymentMenu (fst (step C L P (Trigger ev pt) (w, geom))) \<longrightarrow>
       anchorPosition (fst (step C L P (Trigger ev pt) (w, geom))) =
         getAnchorPosition C (popoverPlacement P) (geom (target (nativeEvent ev)))
       \<and> transferBalanceButtonRef (fst (step C L P (Trigger ev pt) (w, geom))) =
         Some (target (nativeEvent ev)))
   \<and> shouldShowAddPaymentMenu (fst (step C L P (Resize geom') (w, geom))) =
       shouldShowAddPaymentMenu w
   \<and> (shouldListenForResize P \<and> transferBalanceButtonRef w = Some el \<longrightarrow>
       anchorPosition (fst (step C L P (Resize geom') (w, geom))) =
         getAnchorPosition C (popoverPlacement P) (geom' el))
   \<and> (\<not> shouldListenForResize P \<or> transferBalanceButtonRef w = None \<longrightarrow>
       fst (step C L P (Resize geom') (w, geom)) = w)"
proof -
  have steps: "resizeHeard placement (P', i) \<and> anchored C placement s \<longrightarrow>
      anchored C placement (step C L P' i s)"
    by (simp add: step_anchored)
  have "anchored C placement (initialKYCWall, geom0)"
    by (simp add: anchored_def initialKYCWall_def)
  then have runs: "list_all (resizeHeard placement) evs \<longrightarrow>
      anchored C placement (run C L evs (initialKYCWall, geom0))"
    by (simp add: run_anchored)
  have opens: "\<not> shouldShowAddPaymentMenu w \<and>
       shouldShowAddPaymentMenu (fst (step C L P (Trigger ev pt) (w, geom))) \<longrightarrow>
       anchorPosition (fst (step C L P (Trigger ev pt) (w, geom))) =
         getAnchorPosition C (popoverPlacement P) (geom (target (nativeEvent ev)))
       \<and> transferBalanceButtonRef (fst (step C L P (Trigger ev pt) (w, geom))) =
         Some (target (nativeEvent ev))"
    by (auto simp add: continueAction_def Let_def performs_simps
        setPositionAddPaymentMenu_def split: option.splits if_splits)
  have resize: "shouldShowAddPaymentMenu (fst (step C L P (Resize geom') (w, geom))) =
       shouldShowAddPaymentMenu w"
    "shouldListenForResize P \<and> transferBalanceButtonRef w = Some el \<longrightarrow>
       anchorPosition (fst (step C L P (Resize geom') (w, geom))) =
         getAnchorPosition C (popoverPlacement P) (geom' el)"
    "\<not> shouldListenForResize P \<or> transferBalanceButtonRef w = None \<longrightarrow>
       fst (step C L P (Resize geom') (w, geom)) = w"
    by (auto simp add: setMenuPosition_def Let_def performs_simps
        setPositionAddPaymentMenu_def split: option.splits)
  from steps runs opens resize show ?thesis by blast
qed

theorem anchor_current_when_resize_heard_witness:
  "list_all (resizeHeard ''bottom'')
     [(exampleListeningProps, Trigger exampleEvent ''pay''),
      (exampleListeningProps, Resize exampleGeomResized)]
   \<and> anchored exampleCONST ''bottom''
       (run exampleCONST exampleLibs
          [(exampleListeningProps, Trigger exampleEvent ''pay''),
           (exampleListeningProps, Resize exampleGeomResized)]
          (initialKYCWall, exampleGeom))
   \<and> fst (run exampleCONST exampleLibs
          [(exampleListeningProps, Trigger exampleEvent ''pay''),
           (exampleListeningProps, Resize exampleGeomResized)]
          (initialKYCWall, exampleGeom)) =
       \<lparr>shouldShowAddPaymentMenu = True,
        anchorPosition = \<lparr>anchorPositionVertical = 218, anchorPositionHorizontal = 30\<rparr>,
        transferBalanceButtonRef = Some 3\<rparr>
   \<and> resizeHeard ''bottom'' (exampleListeningProps, Trigger exampleEvent ''pay'')
   \<and> anchored exampleCONST ''bottom'' (examplePressedWall, exampleGeom)
   \<and> anchored exampleCONST ''bottom''
       (step exampleCONST exampleLibs exampleListeningProps (Trigger exampleEvent ''pay'')
          (examplePressedWall, exampleGeom))
   \<and> \<not> shouldShowAddPaymentMenu examplePressedWall
   \<and> shouldShowAddPaymentMenu
       (fst (step exampleCONST exampleLibs exampleListeningProps (Trigger exampleEvent ''pay'')
          (examplePressedWall, exampleGeom)))
   \<and> anchorPosition
       (fst (step exampleCONST exampleLibs exampleListeningProps (Trigger exampleEvent ''pay'')
          (examplePressedWall, exampleGeom))) =
       \<lparr>anchorPositionVertical = 118, anchorPositionHorizontal = 70\<rparr>
   \<and> shouldListenForResize exampleListeningProps
   \<and> transferBalanceButtonRef examplePressedWall = Some 3
   \<and> anchorPosition
       (fst (step exampleCONST exampleLibs exampleListeningProps (Resize exampleGeomResized)
          (examplePressedWall, exampleGeom))) =
       \<lparr>anchorPositionVertical = 218, anchorPositionHorizontal = 30\<rparr>
   \<and> \<not> shouldListenForResize exampleProps
   \<and> fst (step exampleCONST exampleLibs exampleProps (Resize exampleGeomResized)
          (examplePressedWall, exampleGeom)) = examplePressedWall"
  using anchor_current_when_resize_heard [where placement = "''bottom''" and C = exampleCONST
      and L = exampleLibs and geom0 = exampleGeom
      and evs = "[(exampleListeningProps, Trigger exampleEvent ''pay''),
           (exampleListeningProps, Resize exampleGeomResized)]"
      and P' = exampleListeningProps and i = "Trigger exampleEvent ''pay''"
      and s = "(examplePressedWall, exampleGeom)"
      and w = examplePressedWall and P = exampleListeningProps and ev = exampleEvent
      and pt = "''pay''" and geom = exampleGeom and geom' = exampleGeomResized and el = 3]
    anchor_current_when_resize_heard [where placement = "''bottom''" and C = exampleCONST
      and L = exampleLibs and geom0 = exampleGeom and evs = "[]"
      and P' = exampleProps and i = Close and s = "(examplePressedWall, exampleGeom)"
      and w = examplePressedWall and P = exampleProps and ev = exampleEvent
      and pt = "''pay''" and geom = exampleGeom and geom' = exampleGeomResized and el = 3]
  by (simp add: continueAction_def Let_def performs_simps anchored_def
      setPositionAddPaymentMenu_def setMenuPosition_def getAnchorPosition_def exampleLibs_def
      exampleListeningProps_def examplePressedWall_def
      exampleProps_def exampleCONST_def exampleGeom_def exampleGeomResized_def exampleEvent_def
      initialKYCWall_def hasExpensifyPaymentMethod_spec_def
      POPOVER_MENU_ANCHOR_POSITION_VERTICAL_OFFSET_def
      POPOVER_MENU_ANCHOR_POSITION_HORIZONTAL_OFFSET_def)

section \<open>A trigger while the menu is open\<close>

text \<open>
  C4: a trigger while the menu is open only hides the menu: no continuation, no
  navigation, and no eligibility check, so the props, the libraries, the event and the
  payment type do not matter.
\<close>

theorem trigger_while_menu_open:
  assumes "shouldShowAddPaymentMenu w"
  shows "continueAction C L P geom w ev pt = ([SetShouldShowAddPaymentMenu False], None)
    \<and> continueAction C L P geom w ev pt = continueAction C' L' P' geom' w ev' pt'
    \<and> performs (fst (continueAction C L P geom w ev pt)) w = w\<lparr>shouldShowAddPaymentMenu := False\<rparr>"
  using assms by (simp add: continueAction_menu_open performs_simps)

theorem trigger_while_menu_open_witness:
  "shouldShowAddPaymentMenu (initialKYCWall\<lparr>shouldShowAddPaymentMenu := True\<rparr>)
   \<and> continueAction exampleCONST exampleLibs exampleProps exampleGeom
        (initialKYCWall\<lparr>shouldShowAddPaymentMenu := True\<rparr>) exampleEvent ''pay''
      = ([SetShouldShowAddPaymentMenu False], None)
   \<and> performs (fst (continueAction exampleCONST exampleLibs exampleProps exampleGeom
        (initialKYCWall\<lparr>shouldShowAddPaymentMenu := True\<rparr>) exampleEvent ''pay''))
        (initialKYCWall\<lparr>shouldShowAddPaymentMenu := True\<rparr>) = initialKYCWall"
  using trigger_while_menu_open [of "initialKYCWall\<lparr>shouldShowAddPaymentMenu := True\<rparr>"
      exampleCONST exampleLibs exampleProps exampleGeom exampleEvent "''pay''"
      exampleCONST exampleLibs exampleProps exampleGeom exampleEvent "''pay''"]
  by (simp add: initialKYCWall_def performs_simps)

section \<open>The anchor formula\<close>

text \<open>
  C5: for every geometry the anchor is \<open>{top + height - 2, left + 20}\<close> when the
  placement is "bottom" and \<open>{top - POPOVER_MENU_PADDING, left}\<close> for every other
  placement; the geometry \<open>{top:100, left:50, height:20, width:80}\<close> gives
  \<open>{118, 70}\<close> at "bottom" and, with a padding of 8, \<open>{92, 50}\<close> at "top".
\<close>

theorem getAnchorPosition_formula:
  "getAnchorPosition C ''bottom'' r =
     \<lparr>anchorPositionVertical = top' r + height r - 2,
      anchorPositionHorizontal = left r + 20\<rparr>
   \<and> (placement \<noteq> ''bottom'' \<longrightarrow>
        getAnchorPosition C placement r =
          \<lparr>anchorPositionVertical = top' r - MODAL_POPOVER_MENU_PADDING C,
           anchorPositionHorizontal = left r\<rparr>)
   \<and> getAnchorPosition C ''bottom'' \<lparr>top' = 100, left = 50, width = 80, height = 20\<rparr> =
       \<lparr>anchorPositionVertical = 118, anchorPositionHorizontal = 70\<rparr>
   \<and> (MODAL_POPOVER_MENU_PADDING C = 8 \<longrightarrow>
        getAnchorPosition C ''top'' \<lparr>top' = 100, left = 50, width = 80, height = 20\<rparr> =
          \<lparr>anchorPositionVertical = 92, anchorPositionHorizontal = 50\<rparr>)"
  by (simp add: getAnchorPosition_def POPOVER_MENU_ANCHOR_POSITION_VERTICAL_OFFSET_def
      POPOVER_MENU_ANCHOR_POSITION_HORIZONTAL_OFFSET_def)

theorem getAnchorPosition_formula_witness:
  "''top'' \<noteq> ''bottom''
   \<and> MODAL_POPOVER_MENU_PADDING exampleCONST = 8
   \<and> getAnchorPosition exampleCONST ''bottom'' (exampleGeom 3) =
       \<lparr>anchorPositionVertical = 118, anchorPositionHorizontal = 70\<rparr>
   \<and> getAnchorPosition exampleCONST ''top'' (exampleGeom 3) =
       \<lparr>anchorPositionVertical = 92, anchorPositionHorizontal = 50\<rparr>"
  using getAnchorPosition_formula [of exampleCONST "exampleGeom 3" "''top''"]
  by (simp add: exampleCONST_def exampleGeom_def)

section \<open>A payment method on file, and the wallet tier\<close>




text \<open>
  C7: a trigger in the idle state, not for an expense report, with a payment method on
  file and a wallet whose tier is GOLD (the GOLD constant being a non-empty name), logs
  and invokes the continuation once with the payment type; no navigation is requested and
  the menu stays hidden.
\<close>

theorem gold_invokes_continuation:
  assumes "\<not> shouldShowAddPaymentMenu w"
    and "\<not> isExpenseReport L (iouReport P)"
    and "hasExpensifyPaymentMethod L (case fundList P of None \<Rightarrow> [] | Some fl \<Rightarrow> fl)
           (bankAccountList P)"
    and "userWallet P = Some uw"
    and "tierName uw = Some (WALLET_TIER_NAME_GOLD C)"
    and "WALLET_TIER_NAME_GOLD C \<noteq> ''''"
  shows "continueAction C L P geom w ev pt =
       ([SetTransferBalanceButtonRef (target (nativeEvent ev)),
         LogInfo msgPassed,
         OnSuccessfulKYC pt], None)
     \<and> performs (fst (continueAction C L P geom w ev pt)) w =
       w\<lparr>transferBalanceButtonRef := Some (target (nativeEvent ev))\<rparr>
     \<and> \<not> shouldShowAddPaymentMenu (performs (fst (continueAction C L P geom w ev pt)) w)"
proof -
  have "truthy (tierName uw)"
    using assms(5,6) by (simp add: truthy_def)
  with assms have "continueAction C L P geom w ev pt =
       ([SetTransferBalanceButtonRef (target (nativeEvent ev)),
         LogInfo msgPassed,
         OnSuccessfulKYC pt], None)"
    by (intro continueAction_gold)
  then show ?thesis using assms(1) by (simp add: performs_simps)
qed

theorem gold_invokes_continuation_witness:
  "\<not> shouldShowAddPaymentMenu initialKYCWall
   \<and> \<not> isExpenseReport exampleLibs (iouReport (exampleProps\<lparr>userWallet := Some \<lparr>tierName = Some ''GOLD''\<rparr>\<rparr>))
   \<and> hasExpensifyPaymentMethod exampleLibs
        (case fundList (exampleProps\<lparr>userWallet := Some \<lparr>tierName = Some ''GOLD''\<rparr>\<rparr>) of
           None \<Rightarrow> [] | Some fl \<Rightarrow> fl)
        (bankAccountList (exampleProps\<lparr>userWallet := Some \<lparr>tierName = Some ''GOLD''\<rparr>\<rparr>))
   \<and> userWallet (exampleProps\<lparr>userWallet := Some \<lparr>tierName = Some ''GOLD''\<rparr>\<rparr>) =
       Some \<lparr>tierName = Some ''GOLD''\<rparr>
   \<and> tierName \<lparr>tierName = Some ''GOLD''\<rparr> = Some (WALLET_TIER_NAME_GOLD exampleCONST)
   \<and> WALLET_TIER_NAME_GOLD exampleCONST \<noteq> ''''
   \<and> continueAction exampleCONST exampleLibs
        (exampleProps\<lparr>userWallet := Some \<lparr>tierName = Some ''GOLD''\<rparr>\<rparr>) exampleGeom
        initialKYCWall exampleEvent ''pay'' =
       ([SetTransferBalanceButtonRef 3, LogInfo msgPassed, OnSuccessfulKYC ''pay''], None)"
  using gold_invokes_continuation [of initialKYCWall exampleLibs
      "exampleProps\<lparr>userWallet := Some \<lparr>tierName = Some ''GOLD''\<rparr>\<rparr>"
      "\<lparr>tierName = Some ''GOLD''\<rparr>" exampleCONST exampleGeom exampleEvent "''pay''"]
  by (simp add: exampleLibs_def exampleProps_def exampleCONST_def initialKYCWall_def
      exampleEvent_def hasExpensifyPaymentMethod_spec_def)

section \<open>Absent lists\<close>



section \<open>Selecting an entry of the menu\<close>

text \<open>
  C9: \<open>handleItemSelected\<close> first hides the menu and then navigates to the bank account
  route when the item is the bank account constant, to the debit card route when it is
  the debit card constant (the two constants being different), and nowhere for any other
  item; the menu is hidden in every case.
\<close>

theorem handleItemSelected_routes:
  "(item = PAYMENT_METHODS_BANK_ACCOUNT C \<longrightarrow>
      handleItemSelected C P item =
        [SetShouldShowAddPaymentMenu False, Navigate (addBankAccountRoute P)])
   \<and> (item = PAYMENT_METHODS_DEBIT_CARD C \<and> item \<noteq> PAYMENT_METHODS_BANK_ACCOUNT C \<longrightarrow>
      handleItemSelected C P item =
        [SetShouldShowAddPaymentMenu False, Navigate (addDebitCardRoute P)])
   \<and> (item \<noteq> PAYMENT_METHODS_BANK_ACCOUNT C \<and> item \<noteq> PAYMENT_METHODS_DEBIT_CARD C \<longrightarrow>
      handleItemSelected C P item = [SetShouldShowAddPaymentMenu False])
   \<and> performs (handleItemSelected C P item) w = w\<lparr>shouldShowAddPaymentMenu := False\<rparr>"
  by (simp add: handleItemSelected_def performs_simps)

theorem handleItemSelected_routes_witness:
  "handleItemSelected exampleCONST exampleProps ''bankAccount'' =
     [SetShouldShowAddPaymentMenu False, Navigate ''add-bank-account'']
   \<and> handleItemSelected exampleCONST exampleProps ''debitCard'' =
     [SetShouldShowAddPaymentMenu False, Navigate ''add-debit-card'']
   \<and> handleItemSelected exampleCONST exampleProps ''payPal'' = [SetShouldShowAddPaymentMenu False]
   \<and> performs (handleItemSelected exampleCONST exampleProps ''payPal'')
        (initialKYCWall\<lparr>shouldShowAddPaymentMenu := True\<rparr>) = initialKYCWall"
  using handleItemSelected_routes [of "''bankAccount''" exampleCONST exampleProps
      "initialKYCWall\<lparr>shouldShowAddPaymentMenu := True\<rparr>"]
    handleItemSelected_routes [of "''debitCard''" exampleCONST exampleProps
      "initialKYCWall\<lparr>shouldShowAddPaymentMenu := True\<rparr>"]
    handleItemSelected_routes [of "''payPal''" exampleCONST exampleProps
      "initialKYCWall\<lparr>shouldShowAddPaymentMenu := True\<rparr>"]
  by (simp add: exampleCONST_def exampleProps_def initialKYCWall_def performs_simps)

section \<open>A wallet without a tier name\<close>




end
